theory Spec2Isabelle
  imports Main "HOL-Library.Word"
begin

section \<open>Strings and values of the JavaScript source\<close>

text \<open>
  A JavaScript string is a sequence of UTF-16 code units: \<open>length\<close>, \<open>substring\<close>
  and \<open>trim\<close> all count code units. The literals of \<open>server.js\<close> are written below
  by their code units.
\<close>

type_synonym jsstring = "16 word list"

text \<open>
  \<open>String.prototype.trim\<close> removes the WhiteSpace and LineTerminator code points of
  ECMAScript from both ends: TAB, LF, VT, FF, CR, SP, NBSP, U+1680, U+2000 to U+200A,
  U+2028, U+2029, U+202F, U+205F, U+3000 and U+FEFF.
\<close>

definition isWhiteSpace :: "16 word \<Rightarrow> bool" where
  "isWhiteSpace c =
     (c = 0x9 \<or> c = 0xA \<or> c = 0xB \<or> c = 0xC \<or> c = 0xD \<or> c = 0x20 \<or> c = 0xA0 \<or>
      c = 0x1680 \<or> (0x2000 \<le> c \<and> c \<le> 0x200A) \<or> c = 0x2028 \<or> c = 0x2029 \<or>
      c = 0x202F \<or> c = 0x205F \<or> c = 0x3000 \<or> c = 0xFEFF)"

definition trim :: "jsstring \<Rightarrow> jsstring" where
  "trim s = rev (dropWhile isWhiteSpace (rev (dropWhile isWhiteSpace s)))"

text \<open>\<open>s.substring(0, n)\<close>: the first \<open>n\<close> code units, the whole string when it is shorter.\<close>

definition substring0 :: "jsstring \<Rightarrow> nat \<Rightarrow> jsstring" where
  "substring0 s n = take n s"

text \<open>A thrown \<open>Error\<close>, by its \<open>message\<close>.\<close>

datatype error = Error jsstring

fun message :: "error \<Rightarrow> jsstring" where
  "message (Error m) = m"

type_synonym 'a result = "error + 'a"

text \<open>
  A JSON number, by the two things the handlers observe of it: whether it is zero
  (the only falsy number \<open>JSON.parse\<close> can give) and the string that a template
  literal prints for it.
\<close>

record jsnumber =
  isZero :: bool
  numberText :: jsstring

text \<open>
  The value of a field of the body that \<open>express.json()\<close> parsed: \<open>undefined\<close> when the
  field is absent, else any JSON value, arrays and objects (as their key and value
  pairs) included.
\<close>

datatype jsvalue =
    JUndefined
  | JNull
  | JBool bool
  | JNum jsnumber
  | JStr jsstring
  | JArr "jsvalue list"
  | JObj "(jsstring \<times> jsvalue) list"

text \<open>ToBoolean, as \<open>!url\<close> and \<open>slideCount || ...\<close> apply it: arrays and objects are
  truthy.\<close>

fun truthy :: "jsvalue \<Rightarrow> bool" where
  "truthy JUndefined = False"
| "truthy JNull = False"
| "truthy (JBool b) = b"
| "truthy (JNum n) = (\<not> isZero n)"
| "truthy (JStr s) = (s \<noteq> [])"
| "truthy (JArr xs) = True"
| "truthy (JObj kvs) = True"

text \<open>
  The strings of the language itself that ToString can give or throw with: the key
  \<open>toString\<close>, the text \<open>[object Object]\<close> of \<open>Object.prototype.toString\<close>, and the
  message \<open>Cannot convert object to primitive value\<close> of the TypeError.
\<close>

definition keyToString :: jsstring where
  "keyToString =
   [0x74, 0x6F, 0x53, 0x74, 0x72, 0x69, 0x6E, 0x67]"

definition objectObject :: jsstring where
  "objectObject =
   [0x5B, 0x6F, 0x62, 0x6A, 0x65, 0x63, 0x74, 0x20, 0x4F, 0x62, 0x6A, 0x65, 0x63, 0x74, 0x5D]"

definition msgCannotConvert :: jsstring where
  "msgCannotConvert =
   [0x43, 0x61, 0x6E, 0x6E, 0x6F, 0x74, 0x20, 0x63, 0x6F, 0x6E, 0x76, 0x65, 0x72, 0x74, 0x20,
    0x6F, 0x62, 0x6A, 0x65, 0x63, 0x74, 0x20, 0x74, 0x6F, 0x20, 0x70, 0x72, 0x69, 0x6D, 0x69,
    0x74, 0x69, 0x76, 0x65, 0x20, 0x76, 0x61, 0x6C, 0x75, 0x65]"

text \<open>
  ToString, as a template literal applies it to an interpolated value. A parsed JSON
  value holds no function, so an object with an own key \<open>toString\<close> has no callable
  \<open>toString\<close>, and its \<open>valueOf\<close> (own and not callable, or inherited and returning the
  object) gives no primitive: the conversion throws a TypeError. Any other object
  prints as \<open>[object Object]\<close>. An array prints as \<open>join(",")\<close> does: its elements
  converted in order, \<open>null\<close> as the empty string, with commas between; the first
  element that throws ends the conversion.
\<close>

fun toString :: "jsvalue \<Rightarrow> jsstring result"
  and joinElements :: "jsvalue list \<Rightarrow> jsstring result" where
  "toString JUndefined = Inr [0x75, 0x6E, 0x64, 0x65, 0x66, 0x69, 0x6E, 0x65, 0x64]"
| "toString JNull = Inr [0x6E, 0x75, 0x6C, 0x6C]"
| "toString (JBool b) =
     Inr (if b then [0x74, 0x72, 0x75, 0x65] else [0x66, 0x61, 0x6C, 0x73, 0x65])"
| "toString (JNum n) = Inr (numberText n)"
| "toString (JStr s) = Inr s"
| "toString (JArr xs) = joinElements xs"
| "toString (JObj kvs) =
     (if keyToString \<in> set (map fst kvs) then Inl (Error msgCannotConvert)
      else Inr objectObject)"
| "joinElements [] = Inr []"
| "joinElements (x # xs) =
     (case (if x = JNull \<or> x = JUndefined then Inr [] else toString x) of
        Inl e \<Rightarrow> Inl e
      | Inr s \<Rightarrow>
          (if xs = [] then Inr s
           else (case joinElements xs of
                   Inl e \<Rightarrow> Inl e
                 | Inr t \<Rightarrow> Inr (s @ 0x2C # t))))"

text \<open>The decimal digits of a length or an ordinal, as a template literal prints
  it.\<close>

fun natToString :: "nat \<Rightarrow> jsstring" where
  "natToString n =
     (if n < 10 then [of_nat (48 + n)]
      else natToString (n div 10) @ [of_nat (48 + n mod 10)])"

declare natToString.simps [simp del]

subsection \<open>The string literals of the source\<close>

text \<open>The error messages of the responses: the 400 body (lines 34 and 126) and the two 500 bodies (lines 115 and 247).\<close>

definition msgUrlRequired :: jsstring where
  "msgUrlRequired =
   [0x55, 0x52, 0x4C, 0x304C, 0x5FC5, 0x8981, 0x3067, 0x3059]"

definition msgAnalyzeFailed :: jsstring where
  "msgAnalyzeFailed =
   [0x30B9, 0x30E9, 0x30A4, 0x30C9, 0x89E3, 0x6790, 0x306B, 0x5931, 0x6557, 0x3057, 0x307E,
    0x3057, 0x305F]"

definition msgBatchFailed :: jsstring where
  "msgBatchFailed =
   [0x30D0, 0x30C3, 0x30C1, 0x89E3, 0x6790, 0x306B, 0x5931, 0x6557, 0x3057, 0x307E, 0x3057,
    0x305F]"

text \<open>The prompt of the single-slide endpoint (lines 77 to 93), cut at its one interpolation.\<close>

definition singlePromptHead :: jsstring where
  "singlePromptHead =
   [0xA, 0x3042, 0x306A, 0x305F, 0x306F, 0x30D7, 0x30ED, 0x306E, 0x30D7, 0x30EC, 0x30BC, 0x30F3,
    0x30C6, 0x30FC, 0x30BF, 0x30FC, 0x3067, 0x3059, 0x3002, 0x4EE5, 0x4E0B, 0x306E, 0x30B9,
    0x30E9, 0x30A4, 0x30C9, 0x5185, 0x5BB9, 0x304B, 0x3089, 0x3001, 0x81EA, 0x7136, 0x3067,
    0x9B45, 0x529B, 0x7684, 0x306A, 0x30CA, 0x30EC, 0x30FC, 0x30B7, 0x30E7, 0x30F3, 0x539F,
    0x7A3F, 0x3092, 0x65E5, 0x672C, 0x8A9E, 0x3067, 0x4F5C, 0x6210, 0x3057, 0x3066, 0x304F,
    0x3060, 0x3055, 0x3044, 0x3002, 0xA, 0xA, 0x3010, 0x8981, 0x4EF6, 0x3011, 0xA, 0x2D, 0x20,
    0x31, 0x35, 0x30, 0x2D, 0x33, 0x30, 0x30, 0x6587, 0x5B57, 0x7A0B, 0x5EA6, 0xA, 0x2D, 0x20,
    0x30D3, 0x30B8, 0x30CD, 0x30B9, 0x30AB, 0x30B8, 0x30E5, 0x30A2, 0x30EB, 0x306A, 0x53E3,
    0x8ABF, 0xA, 0x2D, 0x20, 0x656C, 0x4F53, 0xFF08, 0x3067, 0x3059, 0x30FB, 0x307E, 0x3059,
    0x8ABF, 0xFF09, 0xA, 0x2D, 0x20, 0x53E5, 0x8AAD, 0x70B9, 0x3092, 0x9069, 0x5207, 0x306B,
    0x5165, 0x308C, 0x308B, 0xA, 0x2D, 0x20, 0x5C02, 0x9580, 0x7528, 0x8A9E, 0x306F, 0x5206,
    0x304B, 0x308A, 0x3084, 0x3059, 0x304F, 0x8AAC, 0x660E, 0xA, 0x2D, 0x20, 0x524D, 0x7F6E,
    0x304D, 0x3084, 0x6328, 0x62F6, 0x306F, 0x4E0D, 0x8981, 0xFF08, 0x5185, 0x5BB9, 0x306B,
    0x76F4, 0x63A5, 0x5165, 0x308B, 0xFF09, 0xA, 0xA, 0x3010, 0x30B9, 0x30E9, 0x30A4, 0x30C9,
    0x5185, 0x5BB9, 0x3011, 0xA]"

definition singlePromptTail :: jsstring where
  "singlePromptTail =
   [0xA, 0xA, 0x3010, 0x51FA, 0x529B, 0x5F62, 0x5F0F, 0x3011, 0xA, 0x30CA, 0x30EC, 0x30FC,
    0x30B7, 0x30E7, 0x30F3, 0x539F, 0x7A3F, 0x306E, 0x307F, 0x3092, 0x51FA, 0x529B, 0x3057,
    0x3066, 0x304F, 0x3060, 0x3055, 0x3044, 0x3002, 0x524D, 0x7F6E, 0x304D, 0x3084, 0x8AAC,
    0x660E, 0x306F, 0x4E0D, 0x8981, 0x3067, 0x3059, 0x3002, 0xA]"

text \<open>The prompt of the batch endpoint (lines 195 to 213), cut at its three interpolations: the ordinal, the line chosen by the slide's position, and the slide's text.\<close>

definition batchPromptHead :: jsstring where
  "batchPromptHead =
   [0xA, 0x3042, 0x306A, 0x305F, 0x306F, 0x30D7, 0x30ED, 0x306E, 0x30D7, 0x30EC, 0x30BC, 0x30F3,
    0x30C6, 0x30FC, 0x30BF, 0x30FC, 0x3067, 0x3059, 0x3002, 0x4EE5, 0x4E0B, 0x306E, 0x30B9,
    0x30E9, 0x30A4, 0x30C9, 0x5185, 0x5BB9, 0x304B, 0x3089, 0x3001, 0x81EA, 0x7136, 0x3067,
    0x9B45, 0x529B, 0x7684, 0x306A, 0x30CA, 0x30EC, 0x30FC, 0x30B7, 0x30E7, 0x30F3, 0x539F,
    0x7A3F, 0x3092, 0x65E5, 0x672C, 0x8A9E, 0x3067, 0x4F5C, 0x6210, 0x3057, 0x3066, 0x304F,
    0x3060, 0x3055, 0x3044, 0x3002, 0xA, 0xA, 0x3010, 0x30B9, 0x30E9, 0x30A4, 0x30C9, 0x756A,
    0x53F7, 0x3011, 0xA]"

definition batchPromptRequirements :: jsstring where
  "batchPromptRequirements =
   [0x679A, 0x76EE, 0xA, 0xA, 0x3010, 0x8981, 0x4EF6, 0x3011, 0xA, 0x2D, 0x20, 0x31, 0x35, 0x30,
    0x2D, 0x32, 0x35, 0x30, 0x6587, 0x5B57, 0x7A0B, 0x5EA6, 0xA, 0x2D, 0x20, 0x30D3, 0x30B8,
    0x30CD, 0x30B9, 0x30AB, 0x30B8, 0x30E5, 0x30A2, 0x30EB, 0x306A, 0x53E3, 0x8ABF, 0xA, 0x2D,
    0x20, 0x656C, 0x4F53, 0xFF08, 0x3067, 0x3059, 0x30FB, 0x307E, 0x3059, 0x8ABF, 0xFF09, 0xA,
    0x2D, 0x20, 0x53E5, 0x8AAD, 0x70B9, 0x3092, 0x9069, 0x5207, 0x306B, 0x5165, 0x308C, 0x308B,
    0xA, 0x2D, 0x20]"

definition batchPromptContent :: jsstring where
  "batchPromptContent =
   [0xA, 0xA, 0x3010, 0x30B9, 0x30E9, 0x30A4, 0x30C9, 0x5185, 0x5BB9, 0x3011, 0xA]"

definition batchPromptTail :: jsstring where
  "batchPromptTail =
   [0xA, 0xA, 0x3010, 0x51FA, 0x529B, 0x5F62, 0x5F0F, 0x3011, 0xA, 0x30CA, 0x30EC, 0x30FC,
    0x30B7, 0x30E7, 0x30F3, 0x539F, 0x7A3F, 0x306E, 0x307F, 0x3092, 0x51FA, 0x529B, 0x3057,
    0x3066, 0x304F, 0x3060, 0x3055, 0x3044, 0x3002, 0x524D, 0x7F6E, 0x304D, 0x3084, 0x8AAC,
    0x660E, 0x306F, 0x4E0D, 0x8981, 0x3067, 0x3059, 0x3002, 0xA]"

text \<open>The three alternatives of the conditional on line 206.\<close>

definition roleFirstLine :: jsstring where
  "roleFirstLine =
   [0x5C0E, 0x5165, 0x3068, 0x3057, 0x3066, 0x7C21, 0x6F54, 0x306B, 0x59CB, 0x3081, 0x308B]"

definition roleLastLine :: jsstring where
  "roleLastLine =
   [0x7DE0, 0x3081, 0x304F, 0x304F, 0x308A, 0x306E, 0x8A00, 0x8449, 0x3092, 0x542B, 0x3081,
    0x308B]"

definition roleMiddleLine :: jsstring where
  "roleMiddleLine =
   [0x5185, 0x5BB9, 0x3092, 0x5206, 0x304B, 0x308A, 0x3084, 0x3059, 0x304F, 0x8AAC, 0x660E,
    0x3059, 0x308B]"

text \<open>The placeholder narration of line 226, around the ordinal.\<close>

definition fallbackHead :: jsstring where
  "fallbackHead =
   [0x30B9, 0x30E9, 0x30A4, 0x30C9]"

definition fallbackTail :: jsstring where
  "fallbackTail =
   [0x306E, 0x5185, 0x5BB9, 0x3092, 0x8AAC, 0x660E, 0x3057, 0x307E, 0x3059, 0x3002]"

text \<open>The console messages, cut at their interpolations (lines 40, 66, 98, 108, 132, 179, 219, 225, 230 and 240).\<close>

definition logAnalyzeStart :: jsstring where
  "logAnalyzeStart =
   [0xD83D, 0xDCD6, 0x20, 0x30B9, 0x30E9, 0x30A4, 0x30C9, 0x89E3, 0x6790, 0x958B, 0x59CB, 0x3A,
    0x20]"

definition logTextDone :: jsstring where
  "logTextDone =
   [0x2705, 0x20, 0x30C6, 0x30AD, 0x30B9, 0x30C8, 0x53D6, 0x5F97, 0x5B8C, 0x4E86, 0x3A, 0x20]"

definition logChars :: jsstring where
  "logChars =
   [0x20, 0x6587, 0x5B57]"

definition logNarrationDone :: jsstring where
  "logNarrationDone =
   [0xD83C, 0xDFA4, 0x20, 0x30CA, 0x30EC, 0x30FC, 0x30B7, 0x30E7, 0x30F3, 0x751F, 0x6210,
    0x5B8C, 0x4E86, 0x3A, 0x20]"

definition logErrorTag :: jsstring where
  "logErrorTag =
   [0x274C, 0x20, 0x30A8, 0x30E9, 0x30FC, 0x3A]"

definition logBatchStart :: jsstring where
  "logBatchStart =
   [0xD83D, 0xDCD6, 0x20, 0x30D0, 0x30C3, 0x30C1, 0x89E3, 0x6790, 0x958B, 0x59CB, 0x3A, 0x20]"

definition logEstimateOpen :: jsstring where
  "logEstimateOpen =
   [0x20, 0x28, 0x63A8, 0x5B9A]"

definition logUnknown :: jsstring where
  "logUnknown =
   [0x4E0D, 0x660E]"

definition logEstimateClose :: jsstring where
  "logEstimateClose =
   [0x679A, 0x29]"

definition logCheck :: jsstring where
  "logCheck =
   [0x2705, 0x20]"

definition logSlidesDetected :: jsstring where
  "logSlidesDetected =
   [0x20, 0x679A, 0x306E, 0x30B9, 0x30E9, 0x30A4, 0x30C9, 0x3092, 0x691C, 0x51FA]"

definition logSlide :: jsstring where
  "logSlide =
   [0xD83C, 0xDFA4, 0x20, 0x30B9, 0x30E9, 0x30A4, 0x30C9]"

definition logSlash :: jsstring where
  "logSlash =
   [0x2F]"

definition logColon :: jsstring where
  "logColon =
   [0x3A, 0x20]"

definition logCharsTight :: jsstring where
  "logCharsTight =
   [0x6587, 0x5B57]"

definition logSlideFail :: jsstring where
  "logSlideFail =
   [0x274C, 0x20, 0x30B9, 0x30E9, 0x30A4, 0x30C9]"

definition logGenFailed :: jsstring where
  "logGenFailed =
   [0x306E, 0x751F, 0x6210, 0x5931, 0x6557, 0x3A]"

definition logBatchDone :: jsstring where
  "logBatchDone =
   [0x2705, 0x20, 0x30D0, 0x30C3, 0x30C1, 0x751F, 0x6210, 0x5B8C, 0x4E86, 0x3A, 0x20]"

definition logItems :: jsstring where
  "logItems =
   [0x4EF6]"

definition logBatchErrorTag :: jsstring where
  "logBatchErrorTag =
   [0x274C, 0x20, 0x30D0, 0x30C3, 0x30C1, 0x51E6, 0x7406, 0x30A8, 0x30E9, 0x30FC, 0x3A]"

section \<open>The rendered page and the slide segmenter\<close>

text \<open>
  The five selectors of \<open>slideSelectors\<close> (lines 147 to 153), in the order of the
  array: \<open>section\<close>, \<open>[class*="slide"]\<close>, \<open>[class*="page"]\<close>, \<open>article\<close> and
  \<open>.swiper-slide\<close>.
\<close>

datatype selector = Section | ClassSlide | ClassPage | Article | SwiperSlide

definition slideSelectors :: "selector list" where
  "slideSelectors = [Section, ClassSlide, ClassPage, Article, SwiperSlide]"

text \<open>
  What the callback of \<open>page.evaluate\<close> reads of the document: the elements that
  \<open>querySelectorAll\<close> returns for a selector, in document order, each with its
  \<open>innerText\<close>, and the \<open>innerText\<close> of the body.
\<close>

record element =
  innerText :: jsstring

record document =
  querySelectorAll :: "selector \<Rightarrow> element list"
  body_innerText :: jsstring

record slide =
  slide_text :: jsstring
  slide_index :: nat

text \<open>
  Lines 155 to 163: the loop over the selectors keeps the elements of the first
  selector that matches at least one and breaks; \<open>slideElements\<close> stays empty when
  none does.
\<close>

fun firstMatching :: "document \<Rightarrow> selector list \<Rightarrow> element list" where
  "firstMatching d [] = []"
| "firstMatching d (sel # rest) =
     (let elements = querySelectorAll d sel
      in if length elements > 0 then elements else firstMatching d rest)"

text \<open>Lines 170 to 173: \<open>map\<close> pairs every element with its position, then \<open>filter\<close>
  keeps the slides whose trimmed text is longer than 20.\<close>

definition toSlides :: "element list \<Rightarrow> slide list" where
  "toSlides slideElements =
     filter (\<lambda>sl. length (trim (slide_text sl)) > 20)
       (map (\<lambda>(idx, el). \<lparr>slide_text = innerText el, slide_index = idx\<rparr>)
          (enumerate 0 slideElements))"

text \<open>The callback of lines 145 to 174, over a list of selectors.\<close>

definition detectSlidesWith :: "selector list \<Rightarrow> document \<Rightarrow> slide list" where
  "detectSlidesWith sels d =
     (let slideElements = firstMatching d sels
      in if length slideElements = 0
         then [\<lparr>slide_text = body_innerText d, slide_index = 0\<rparr>]
         else toSlides slideElements)"

definition detectSlides :: "document \<Rightarrow> slide list" where
  "detectSlides d = detectSlidesWith slideSelectors d"

section \<open>Prompts and the narration generator\<close>

text \<open>The prompt of lines 77 to 93, with the page text cut to 2000 code units.\<close>

definition singlePrompt :: "jsstring \<Rightarrow> jsstring" where
  "singlePrompt textContent =
     singlePromptHead @ substring0 textContent 2000 @ singlePromptTail"

text \<open>
  Line 206 chooses one of three lines by the position \<open>i\<close> of the slide and
  \<open>slides.length\<close>. The comparison \<open>i === slides.length - 1\<close> is made on integers:
  \<open>slides.length - 1\<close> is \<open>-1\<close> for an empty list.
\<close>

datatype positionRole = RoleFirst | RoleLast | RoleMiddle

definition positionRoleOf :: "nat \<Rightarrow> nat \<Rightarrow> positionRole" where
  "positionRoleOf i slidesLength =
     (if i = 0 then RoleFirst
      else if int i = int slidesLength - 1 then RoleLast
      else RoleMiddle)"

fun roleLine :: "positionRole \<Rightarrow> jsstring" where
  "roleLine RoleFirst = roleFirstLine"
| "roleLine RoleLast = roleLastLine"
| "roleLine RoleMiddle = roleMiddleLine"

text \<open>The template of lines 195 to 213 with its three holes filled.\<close>

definition batchPromptWith :: "nat \<Rightarrow> positionRole \<Rightarrow> jsstring \<Rightarrow> jsstring" where
  "batchPromptWith ordinal role slideText =
     batchPromptHead @ natToString ordinal @ batchPromptRequirements @ roleLine role @
     batchPromptContent @ substring0 slideText 1500 @ batchPromptTail"

definition batchPrompt :: "nat \<Rightarrow> nat \<Rightarrow> slide \<Rightarrow> jsstring" where
  "batchPrompt i slidesLength sl =
     batchPromptWith (i + 1) (positionRoleOf i slidesLength) (slide_text sl)"

text \<open>Line 226: the placeholder pushed when the generation of a slide throws.\<close>

definition fallbackNarration :: "nat \<Rightarrow> jsstring" where
  "fallbackNarration ordinal = fallbackHead @ natToString ordinal @ fallbackTail"

section \<open>The collaborators and the effects of a request\<close>

text \<open>
  How the browser and the generator answer during one request. Each awaited call of
  Puppeteer either resolves or rejects: \<open>launch\<close>, \<open>newPage\<close>, \<open>goto\<close> (by the URL),
  \<open>evaluate\<close> and \<open>browser.close\<close> (by the number of calls of it made before in the
  request). For the batch endpoint \<open>evaluate\<close> resolves with the document the callback
  runs on; for the single-slide endpoint, whose callback only strips noise elements
  inside the browser, with the text the callback returns. \<open>generateContent\<close> answers
  the \<open>k\<close>-th call of the request (from 0) for a prompt with the text of
  \<open>result.response.text()\<close>, or throws.
\<close>

record 'r env =
  launch :: "unit result"
  newPage :: "unit result"
  goto :: "jsvalue \<Rightarrow> unit result"
  evaluate :: "'r result"
  close :: "nat \<Rightarrow> unit result"
  generateContent :: "nat \<Rightarrow> jsstring \<Rightarrow> jsstring result"

text \<open>
  What a handler does to the outside, in order: console output, the calls on the
  browser (recorded when they are made, whether or not they succeed), the timers it
  awaits (in milliseconds) and the prompts it sends.
\<close>

datatype event =
    Log jsstring
  | LogError jsstring jsstring
  | Launch
  | NewPage
  | Goto jsvalue
  | Sleep nat
  | Evaluate
  | Close
  | Generate jsstring

text \<open>The JSON bodies of the responses, and a response as its status and body.\<close>

datatype body =
    ErrorBody jsstring
  | FailureBody jsstring jsstring
  | SingleBody jsstring nat nat
  | BatchBody "jsstring list" nat nat

type_synonym response = "nat \<times> body"

text \<open>
  The state a handler threads through its \<open>try\<close> block: whether the variable
  \<open>browser\<close> holds a browser (it starts as \<open>null\<close>), and the effects so far.
\<close>

record state =
  browser :: bool
  trace :: "event list"

definition emit :: "event \<Rightarrow> state \<Rightarrow> state" where
  "emit e s = s\<lparr>trace := trace s @ [e]\<rparr>"

definition initial :: state where
  "initial = \<lparr>browser = False, trace = []\<rparr>"

text \<open>How many times \<open>browser.close()\<close> has been called.\<close>

fun closes :: "event list \<Rightarrow> nat" where
  "closes [] = 0"
| "closes (Close # es) = Suc (closes es)"
| "closes (e # es) = closes es"

text \<open>\<open>await browser.close()\<close>: the call is recorded and answered as the environment
  answers a call of that number.\<close>

definition awaitClose :: "'r env \<Rightarrow> state \<Rightarrow> unit result \<times> state" where
  "awaitClose env s = (close env (closes (trace s)), emit Close s)"

text \<open>
  What a request ends with: the response sent, or none when the handler itself
  rejects before it sends one (a \<open>close\<close> that rejects inside the \<open>catch\<close> block), and
  the effects in order.
\<close>

record outcome =
  response :: "response option"
  effects :: "event list"

section \<open>The single-slide endpoint\<close>

text \<open>The \<open>try\<close> block of lines 39 to 106: the response, or the error thrown, and
  the state at that point. A \<open>close\<close> that rejects on line 63 leaves line 64 undone.\<close>

definition analyzeSlide_try :: "jsstring env \<Rightarrow> jsvalue \<Rightarrow> state \<Rightarrow> response result \<times> state" where
  "analyzeSlide_try env url s0 =
     (case toString url of Inl e \<Rightarrow> (Inl e, s0) | Inr urlText \<Rightarrow>
     (let s1 = emit (Log (logAnalyzeStart @ urlText)) s0;
          s2 = emit Launch s1
      in case launch env of Inl e \<Rightarrow> (Inl e, s2) | Inr _ \<Rightarrow>
     (let s3 = s2\<lparr>browser := True\<rparr>;
          s4 = emit NewPage s3
      in case newPage env of Inl e \<Rightarrow> (Inl e, s4) | Inr _ \<Rightarrow>
     (let s5 = emit (Goto url) s4
      in case goto env url of Inl e \<Rightarrow> (Inl e, s5) | Inr _ \<Rightarrow>
     (let s6 = emit (Sleep 2000) s5;
          s7 = emit Evaluate s6
      in case evaluate env of Inl e \<Rightarrow> (Inl e, s7) | Inr textContent \<Rightarrow>
     (case awaitClose env s7 of (Inl e, s8) \<Rightarrow> (Inl e, s8) | (Inr _, s8) \<Rightarrow>
     (let s9 = s8\<lparr>browser := False\<rparr>;
          s10 = emit (Log (logTextDone @ natToString (length textContent) @ logChars)) s9;
          prompt = singlePrompt textContent;
          s11 = emit (Generate prompt) s10
      in case generateContent env 0 prompt of Inl e \<Rightarrow> (Inl e, s11) | Inr raw \<Rightarrow>
     (let narration = trim raw;
          s12 = emit (Log (logNarrationDone @ natToString (length narration) @ logChars)) s11
      in (Inr (200, SingleBody narration (length textContent) (length narration)), s12)))))))))"

text \<open>The \<open>catch\<close> block of lines 107 to 118: a \<open>close\<close> that rejects here leaves the
  handler without a response.\<close>

definition analyzeSlide_catch :: "jsstring env \<Rightarrow> error \<Rightarrow> state \<Rightarrow> outcome" where
  "analyzeSlide_catch env e s =
     (let s1 = emit (LogError logErrorTag (message e)) s;
          sent = Some (500, FailureBody msgAnalyzeFailed (message e))
      in if browser s1
         then (case awaitClose env s1 of
                 (Inl e', s2) \<Rightarrow> \<lparr>response = None, effects = trace s2\<rparr>
               | (Inr _, s2) \<Rightarrow> \<lparr>response = sent, effects = trace s2\<rparr>)
         else \<lparr>response = sent, effects = trace s1\<rparr>)"

text \<open>The handler of \<open>POST /api/analyze-slide\<close> (lines 30 to 119) on the \<open>url\<close> of
  the body.\<close>

definition analyzeSlide :: "jsstring env \<Rightarrow> jsvalue \<Rightarrow> outcome" where
  "analyzeSlide env url =
     (if \<not> truthy url
      then \<lparr>response = Some (400, ErrorBody msgUrlRequired), effects = []\<rparr>
      else case analyzeSlide_try env url initial of
             (Inr r, s) \<Rightarrow> \<lparr>response = Some r, effects = trace s\<rparr>
           | (Inl e, s) \<Rightarrow> analyzeSlide_catch env e s)"

section \<open>The batch endpoint\<close>

text \<open>
  One turn of the loop of lines 192 to 228, for the slide at \<open>i\<close>: the prompt is sent;
  on an answer the trimmed text is pushed, logged, and the handler waits 500 ms; on a
  throw the error is logged and the placeholder is pushed.
\<close>

fun generateStep ::
  "document env \<Rightarrow> slide list \<Rightarrow> nat \<Rightarrow> jsstring list \<times> state \<Rightarrow> jsstring list \<times> state" where
  "generateStep env slides i (narrations, s0) =
     (let sl = slides ! i;
          prompt = batchPrompt i (length slides) sl;
          s1 = emit (Generate prompt) s0
      in (case generateContent env i prompt of
            Inr raw \<Rightarrow>
              (let narration = trim raw;
                   s2 = emit (Log (logSlide @ natToString (i + 1) @ logSlash @
                          natToString (length slides) @ logColon @
                          natToString (length narration) @ logCharsTight)) s1;
                   s3 = emit (Sleep 500) s2
               in (narrations @ [narration], s3))
          | Inl e \<Rightarrow>
              (let s2 = emit (LogError (logSlideFail @ natToString (i + 1) @ logGenFailed)
                          (message e)) s1
               in (narrations @ [fallbackNarration (i + 1)], s2))))"

text \<open>The loop itself: \<open>for (let i = 0; i < Math.min(slides.length, 50); i++)\<close>. Its
  guard keeps \<open>i\<close> below \<open>slides.length\<close>, so \<open>slides[i]\<close> is always a slide.\<close>

function generateLoop ::
  "document env \<Rightarrow> slide list \<Rightarrow> nat \<Rightarrow> jsstring list \<times> state \<Rightarrow> jsstring list \<times> state" where
  "generateLoop env slides i acc =
     (if i < min (length slides) 50
      then generateLoop env slides (i + 1) (generateStep env slides i acc)
      else acc)"
  by pat_completeness auto
termination
  by (relation "measure (\<lambda>(env, slides, i, acc). min (length slides) 50 - i)") auto

declare generateLoop.simps [simp del]

text \<open>The \<open>try\<close> block of lines 131 to 238. The template of line 132 converts \<open>url\<close>,
  then \<open>slideCount || ...\<close>, before anything is logged; a \<open>close\<close> that rejects on line
  176 leaves line 177 undone.\<close>

definition analyzeSlidesBatch_try ::
  "document env \<Rightarrow> jsvalue \<Rightarrow> jsvalue \<Rightarrow> state \<Rightarrow> response result \<times> state" where
  "analyzeSlidesBatch_try env url slideCount s0 =
     (case toString url of Inl e \<Rightarrow> (Inl e, s0) | Inr urlText \<Rightarrow>
     (case (if truthy slideCount then toString slideCount else Inr logUnknown) of
        Inl e \<Rightarrow> (Inl e, s0) | Inr countText \<Rightarrow>
     (let s1 = emit (Log (logBatchStart @ urlText @ logEstimateOpen @ countText @
                  logEstimateClose)) s0;
          s2 = emit Launch s1
      in case launch env of Inl e \<Rightarrow> (Inl e, s2) | Inr _ \<Rightarrow>
     (let s3 = s2\<lparr>browser := True\<rparr>;
          s4 = emit NewPage s3
      in case newPage env of Inl e \<Rightarrow> (Inl e, s4) | Inr _ \<Rightarrow>
     (let s5 = emit (Goto url) s4
      in case goto env url of Inl e \<Rightarrow> (Inl e, s5) | Inr _ \<Rightarrow>
     (let s6 = emit (Sleep 3000) s5;
          s7 = emit Evaluate s6
      in case evaluate env of Inl e \<Rightarrow> (Inl e, s7) | Inr d \<Rightarrow>
     (let slides = detectSlides d
      in case awaitClose env s7 of (Inl e, s8) \<Rightarrow> (Inl e, s8) | (Inr _, s8) \<Rightarrow>
     (let s9 = s8\<lparr>browser := False\<rparr>;
          s10 = emit (Log (logCheck @ natToString (length slides) @ logSlidesDetected)) s9
      in case generateLoop env slides 0 ([], s10) of (narrations, s11) \<Rightarrow>
     (let s12 = emit (Log (logBatchDone @ natToString (length narrations) @ logItems)) s11
      in (Inr (200, BatchBody narrations (length slides) (length narrations)), s12))))))))))"

text \<open>The \<open>catch\<close> block of lines 239 to 250.\<close>

definition analyzeSlidesBatch_catch :: "document env \<Rightarrow> error \<Rightarrow> state \<Rightarrow> outcome" where
  "analyzeSlidesBatch_catch env e s =
     (let s1 = emit (LogError logBatchErrorTag (message e)) s;
          sent = Some (500, FailureBody msgBatchFailed (message e))
      in if browser s1
         then (case awaitClose env s1 of
                 (Inl e', s2) \<Rightarrow> \<lparr>response = None, effects = trace s2\<rparr>
               | (Inr _, s2) \<Rightarrow> \<lparr>response = sent, effects = trace s2\<rparr>)
         else \<lparr>response = sent, effects = trace s1\<rparr>)"

text \<open>The handler of \<open>POST /api/analyze-slides-batch\<close> (lines 122 to 251) on the
  \<open>url\<close> and \<open>slideCount\<close> of the body.\<close>

definition analyzeSlidesBatch :: "document env \<Rightarrow> jsvalue \<Rightarrow> jsvalue \<Rightarrow> outcome" where
  "analyzeSlidesBatch env url slideCount =
     (if \<not> truthy url
      then \<lparr>response = Some (400, ErrorBody msgUrlRequired), effects = []\<rparr>
      else case analyzeSlidesBatch_try env url slideCount initial of
             (Inr r, s) \<Rightarrow> \<lparr>response = Some r, effects = trace s\<rparr>
           | (Inl e, s) \<Rightarrow> analyzeSlidesBatch_catch env e s)"

section \<open>Observations on a run\<close>

text \<open>The narration that the turn of the loop for the slide at \<open>i\<close> pushes.\<close>

definition narrationOf :: "document env \<Rightarrow> slide list \<Rightarrow> nat \<Rightarrow> jsstring" where
  "narrationOf env slides i =
     (case generateContent env i (batchPrompt i (length slides) (slides ! i)) of
        Inr raw \<Rightarrow> trim raw
      | Inl e \<Rightarrow> fallbackNarration (i + 1))"

text \<open>The effects of that turn alone.\<close>

definition turnEvents :: "document env \<Rightarrow> slide list \<Rightarrow> nat \<Rightarrow> event list" where
  "turnEvents env slides i = trace (snd (generateStep env slides i ([], initial)))"

text \<open>The prompts sent to the generator, in order.\<close>

fun prompts :: "event list \<Rightarrow> jsstring list" where
  "prompts [] = []"
| "prompts (Generate p # es) = p # prompts es"
| "prompts (e # es) = prompts es"

text \<open>The effects other than console output.\<close>

fun withoutLogs :: "event list \<Rightarrow> event list" where
  "withoutLogs [] = []"
| "withoutLogs (Log m # es) = withoutLogs es"
| "withoutLogs (LogError t m # es) = withoutLogs es"
| "withoutLogs (e # es) = e # withoutLogs es"

text \<open>The number that a string of decimal digits writes.\<close>

definition decimalValue :: "jsstring \<Rightarrow> nat" where
  "decimalValue s = foldl (\<lambda>acc c. 10 * acc + (unat c - 48)) 0 s"

section \<open>Example pages and collaborators\<close>

text \<open>A request for \<open>http://a\<close>; the number 3 and an object \<open>{"toString": 3}\<close> as values
  of \<open>slideCount\<close>.\<close>

definition exampleUrl :: jsvalue where
  "exampleUrl = JStr [0x68, 0x74, 0x74, 0x70, 0x3A, 0x2F, 0x2F, 0x61]"

definition three :: jsvalue where
  "three = JNum \<lparr>isZero = False, numberText = [0x33]\<rparr>"


text \<open>A browser on which every call resolves, and one whose first \<open>close\<close> rejects with
  the message \<open>gone\<close>.\<close>

definition okEnv :: "'r \<Rightarrow> (nat \<Rightarrow> jsstring \<Rightarrow> jsstring result) \<Rightarrow> 'r env" where
  "okEnv r g =
     \<lparr>launch = Inr (), newPage = Inr (), goto = (\<lambda>u. Inr ()), evaluate = Inr r,
      close = (\<lambda>k. Inr ()), generateContent = g\<rparr>"

definition closeRejectsOnce :: "'r \<Rightarrow> (nat \<Rightarrow> jsstring \<Rightarrow> jsstring result) \<Rightarrow> 'r env" where
  "closeRejectsOnce r g =
     (okEnv r g)\<lparr>close := (\<lambda>k. if k = 0 then Inl (Error [0x67, 0x6F, 0x6E, 0x65]) else Inr ())\<rparr>"

text \<open>A generator that answers the \<open>k\<close>-th call with a space, \<open>ok\<close>, the code unit
  \<open>48 + k\<close> (the digit of \<open>k\<close> below 10) and a line feed; one that throws on its \<open>j\<close>-th
  call with the message \<open>503\<close>; one that answers every call with its prompt; and one
  that throws on its \<open>j\<close>-th call and answers the others with their prompt.\<close>

definition answering :: "nat \<Rightarrow> jsstring \<Rightarrow> jsstring result" where
  "answering k p = Inr [0x20, 0x6F, 0x6B, of_nat (48 + k), 0xA]"

definition failingAt :: "nat \<Rightarrow> nat \<Rightarrow> jsstring \<Rightarrow> jsstring result" where
  "failingAt j k p = (if k = j then Inl (Error [0x35, 0x30, 0x33]) else answering k p)"

definition echoing :: "nat \<Rightarrow> jsstring \<Rightarrow> jsstring result" where
  "echoing k p = Inr p"

definition echoingExcept :: "nat \<Rightarrow> nat \<Rightarrow> jsstring \<Rightarrow> jsstring result" where
  "echoingExcept j k p = (if k = j then Inl (Error [0x35, 0x30, 0x33]) else Inr p)"

text \<open>Texts of trimmed length 25, 15 (21 before trimming) and 100.\<close>

definition text25 :: jsstring where
  "text25 = replicate 25 0x61"

definition text15 :: jsstring where
  "text15 = [0x20, 0x20, 0x20] @ replicate 15 0x62 @ [0x20, 0x20, 0x20]"

definition text100 :: jsstring where
  "text100 = replicate 100 0x63"

text \<open>A page with no \<open>section\<close>, three elements whose class contains \<open>slide\<close> and one
  \<open>article\<close>; a page on which no selector matches, with the body text \<open>Hi\<close>; a page of
  51 sections.\<close>

definition threeElements :: document where
  "threeElements =
     \<lparr>querySelectorAll =
        (\<lambda>sel. if sel = ClassSlide
               then [\<lparr>innerText = text25\<rparr>, \<lparr>innerText = text15\<rparr>, \<lparr>innerText = text100\<rparr>]
               else if sel = Article then [\<lparr>innerText = text100\<rparr>] else []),
      body_innerText = text100\<rparr>"

definition noElements :: document where
  "noElements = \<lparr>querySelectorAll = (\<lambda>sel. []), body_innerText = [0x48, 0x69]\<rparr>"

definition fiftyOneSections :: document where
  "fiftyOneSections =
     \<lparr>querySelectorAll =
        (\<lambda>sel. if sel = Section then replicate 51 \<lparr>innerText = text25\<rparr> else []),
      body_innerText = []\<rparr>"

section \<open>The loop, turn by turn\<close>

lemma prompts_append: "prompts (xs @ ys) = prompts xs @ prompts ys"
  by (induction xs rule: prompts.induct) simp_all

lemma closes_append: "closes (xs @ ys) = closes xs + closes ys"
  by (induction xs rule: closes.induct) simp_all

lemma withoutLogs_append: "withoutLogs (xs @ ys) = withoutLogs xs @ withoutLogs ys"
  by (induction xs rule: withoutLogs.induct) simp_all

lemma generateStep_fst:
  "fst (generateStep env slides i (ns, s)) = ns @ [narrationOf env slides i]"
  by (simp add: narrationOf_def Let_def split: sum.splits)

lemma generateStep_trace:
  "trace (snd (generateStep env slides i (ns, s))) = trace s @ turnEvents env slides i"
  by (simp add: turnEvents_def initial_def Let_def emit_def split: sum.splits)

lemma generateStep_browser:
  "browser (snd (generateStep env slides i (ns, s))) = browser s"
  by (simp add: Let_def emit_def split: sum.splits)

lemma prompts_turnEvents:
  "prompts (turnEvents env slides i) = [batchPrompt i (length slides) (slides ! i)]"
  by (simp add: turnEvents_def initial_def Let_def emit_def split: sum.splits)

lemma closes_turnEvents: "closes (turnEvents env slides i) = 0"
  by (simp add: turnEvents_def initial_def Let_def emit_def split: sum.splits)

declare generateStep.simps [simp del]

lemma generateLoop_turn:
  "i < min (length slides) 50 \<Longrightarrow>
   generateLoop env slides i acc = generateLoop env slides (i + 1) (generateStep env slides i acc)"
  by (subst generateLoop.simps) (simp only: if_True)

lemma generateLoop_exit:
  "\<not> i < min (length slides) 50 \<Longrightarrow> generateLoop env slides i acc = acc"
  by (subst generateLoop.simps) (simp only: if_False)

lemma generateLoop_fst:
  "fst (generateLoop env slides i acc) =
     fst acc @ map (narrationOf env slides) [i..<min (length slides) 50]"
proof (induction env slides i acc rule: generateLoop.induct)
  case (1 env slides i acc)
  obtain ns s where acc: "acc = (ns, s)" by (cases acc)
  show ?case
  proof (cases "i < min (length slides) 50")
    case True
    have "fst (generateLoop env slides i acc) =
        fst (generateStep env slides i acc) @
          map (narrationOf env slides) [i + 1..<min (length slides) 50]"
      using True "1.IH" by (simp only: generateLoop_turn)
    also have "\<dots> = fst acc @ narrationOf env slides i #
          map (narrationOf env slides) [Suc i..<min (length slides) 50]"
      by (simp add: acc generateStep_fst)
    also have "\<dots> = fst acc @ map (narrationOf env slides) [i..<min (length slides) 50]"
      using True by (simp only: upt_conv_Cons list.map)
    finally show ?thesis .
  next
    case False
    then have "[i..<min (length slides) 50] = []" by (simp only: upt_conv_Nil)
    then show ?thesis by (simp only: generateLoop_exit [OF False] list.map append_Nil2)
  qed
qed

lemma generateLoop_trace:
  "trace (snd (generateLoop env slides i acc)) =
     trace (snd acc) @ concat (map (turnEvents env slides) [i..<min (length slides) 50])"
proof (induction env slides i acc rule: generateLoop.induct)
  case (1 env slides i acc)
  obtain ns s where acc: "acc = (ns, s)" by (cases acc)
  show ?case
  proof (cases "i < min (length slides) 50")
    case True
    have "trace (snd (generateLoop env slides i acc)) =
        trace (snd (generateStep env slides i acc)) @
          concat (map (turnEvents env slides) [i + 1..<min (length slides) 50])"
      using True "1.IH" by (simp only: generateLoop_turn)
    also have "\<dots> = trace (snd acc) @ concat (turnEvents env slides i #
          map (turnEvents env slides) [Suc i..<min (length slides) 50])"
      by (simp add: acc generateStep_trace)
    also have "\<dots> = trace (snd acc) @
          concat (map (turnEvents env slides) [i..<min (length slides) 50])"
      using True by (simp only: upt_conv_Cons list.map)
    finally show ?thesis .
  next
    case False
    then have "[i..<min (length slides) 50] = []" by (simp only: upt_conv_Nil)
    then show ?thesis
      by (simp only: generateLoop_exit [OF False] list.map concat.simps append_Nil2)
  qed
qed

lemma generateLoop_browser:
  "browser (snd (generateLoop env slides i acc)) = browser (snd acc)"
proof (induction env slides i acc rule: generateLoop.induct)
  case (1 env slides i acc)
  obtain ns s where acc: "acc = (ns, s)" by (cases acc)
  show ?case
  proof (cases "i < min (length slides) 50")
    case True
    have "browser (snd (generateLoop env slides i acc)) =
        browser (snd (generateStep env slides i acc))"
      using True "1.IH" by (simp only: generateLoop_turn)
    then show ?thesis by (simp add: acc generateStep_browser)
  next
    case False
    show ?thesis by (simp only: generateLoop_exit [OF False])
  qed
qed

lemma prompts_turns:
  "prompts (concat (map (turnEvents env slides) js)) =
     map (\<lambda>j. batchPrompt j (length slides) (slides ! j)) js"
  by (induction js) (simp_all add: prompts_append prompts_turnEvents)

lemma closes_turns: "closes (concat (map (turnEvents env slides) js)) = 0"
  by (induction js) (simp_all add: closes_append closes_turnEvents)

section \<open>A batch run on which the browser works\<close>

lemma closes_initial: "closes (trace initial) = 0"
  by (simp add: initial_def)

lemma batch_run:
  assumes "truthy url" and "toString url = Inr urlText"
    and "toString slideCount = Inr countText"
    and "launch env = Inr ()" and "newPage env = Inr ()"
    and "goto env url = Inr ()" and "evaluate env = Inr d" and "close env 0 = Inr ()"
  shows "analyzeSlidesBatch env url slideCount =
    (let slides = detectSlides d;
         narrations = map (narrationOf env slides) [0..<min (length slides) 50]
     in \<lparr>response = Some (200, BatchBody narrations (length slides) (length narrations)),
         effects =
           [Log (logBatchStart @ urlText @ logEstimateOpen @
              (if truthy slideCount then countText else logUnknown) @ logEstimateClose),
            Launch, NewPage, Goto url, Sleep 3000, Evaluate, Close,
            Log (logCheck @ natToString (length slides) @ logSlidesDetected)] @
           concat (map (turnEvents env slides) [0..<min (length slides) 50]) @
           [Log (logBatchDone @ natToString (length narrations) @ logItems)]\<rparr>)"
  using assms
  by (simp add: analyzeSlidesBatch_def analyzeSlidesBatch_try_def awaitClose_def Let_def
      case_prod_beta generateLoop_fst generateLoop_trace emit_def initial_def)

lemma positionRoleOf_eq:
  "positionRoleOf i n =
     (if i = 0 then RoleFirst else if i + 1 = n then RoleLast else RoleMiddle)"
  by (auto simp: positionRoleOf_def)

lemma batch_prompts:
  assumes "truthy url" and "toString url = Inr urlText"
    and "toString slideCount = Inr countText"
    and "launch env = Inr ()" and "newPage env = Inr ()"
    and "goto env url = Inr ()" and "evaluate env = Inr d" and "close env 0 = Inr ()"
  shows "prompts (effects (analyzeSlidesBatch env url slideCount)) =
     map (\<lambda>i. batchPrompt i (length (detectSlides d)) (detectSlides d ! i))
       [0..<min (length (detectSlides d)) 50]"
  by (simp add: batch_run [OF assms] Let_def prompts_append prompts_turns)

lemma roleLine_differ:
  "roleFirstLine \<noteq> roleLastLine" "roleFirstLine \<noteq> roleMiddleLine"
  "roleLastLine \<noteq> roleMiddleLine"
  by (simp_all add: roleFirstLine_def roleLastLine_def roleMiddleLine_def)

lemma batchPromptWith_role:
  "batchPromptWith n r t = batchPromptWith n r' t \<longleftrightarrow> r = r'"
  using roleLine_differ
  by (cases r; cases r') (simp_all add: batchPromptWith_def)

lemma withoutLogs_turnEvents:
  "withoutLogs (turnEvents env slides i) =
     (case generateContent env i (batchPrompt i (length slides) (slides ! i)) of
        Inr raw \<Rightarrow> [Generate (batchPrompt i (length slides) (slides ! i)), Sleep 500]
      | Inl e \<Rightarrow> [Generate (batchPrompt i (length slides) (slides ! i))])"
  by (simp add: turnEvents_def generateStep.simps initial_def Let_def emit_def split: sum.splits)

section \<open>The prompt and the placeholder, spelled out\<close>

lemma batchPrompt_spelled:
  "batchPrompt i n sl =
     batchPromptHead @ natToString (i + 1) @ batchPromptRequirements @
     (if i = 0 then roleFirstLine else if i + 1 = n then roleLastLine else roleMiddleLine) @
     batchPromptContent @ take 1500 (slide_text sl) @ batchPromptTail"
  by (simp add: batchPrompt_def batchPromptWith_def positionRoleOf_eq substring0_def)

lemma fallbackNarration_spelled:
  "fallbackNarration n =
     [0x30B9, 0x30E9, 0x30A4, 0x30C9] @ natToString n @
     [0x306E, 0x5185, 0x5BB9, 0x3092, 0x8AAC, 0x660E, 0x3057, 0x307E, 0x3059, 0x3002]"
  by (simp add: fallbackNarration_def fallbackHead_def fallbackTail_def)

lemma narrationOf_spelled:
  "narrationOf env slides i =
     (case generateContent env i
             (batchPromptHead @ natToString (i + 1) @ batchPromptRequirements @
              (if i = 0 then roleFirstLine
               else if i + 1 = length slides then roleLastLine else roleMiddleLine) @
              batchPromptContent @ take 1500 (slide_text (slides ! i)) @ batchPromptTail) of
        Inr raw \<Rightarrow> trim raw
      | Inl e \<Rightarrow>
          [0x30B9, 0x30E9, 0x30A4, 0x30C9] @ natToString (i + 1) @
          [0x306E, 0x5185, 0x5BB9, 0x3092, 0x8AAC, 0x660E, 0x3057, 0x307E, 0x3059, 0x3002])"
  unfolding narrationOf_def batchPrompt_spelled fallbackNarration_spelled ..

section \<open>Ordinals in decimal\<close>

lemma decimalValue_snoc: "decimalValue (s @ [c]) = 10 * decimalValue s + (unat c - 48)"
  by (simp add: decimalValue_def)

lemma unat_digit: "n < 10 \<Longrightarrow> unat (of_nat (48 + n) :: 16 word) = 48 + n"
  by (subst unat_of_nat) simp

lemma decimalValue_natToString: "decimalValue (natToString n) = n"
proof (induction n rule: natToString.induct)
  case (1 n)
  show ?case
  proof (cases "n < 10")
    case True
    then have "natToString n = [of_nat (48 + n)]"
      by (subst natToString.simps) simp
    then show ?thesis
      using True by (simp add: unat_digit decimalValue_def del: of_nat_add)
  next
    case False
    then have "natToString n = natToString (n div 10) @ [of_nat (48 + n mod 10)]"
      by (subst natToString.simps) simp
    then show ?thesis
      using False "1.IH" by (simp add: decimalValue_snoc unat_digit del: of_nat_add)
  qed
qed

lemma natToString_digits: "list_all (\<lambda>c. 0x30 \<le> c \<and> c \<le> 0x39) (natToString n)"
proof (induction n rule: natToString.induct)
  case (1 n)
  have digit: "(0x30 :: 16 word) \<le> of_nat (48 + k) \<and> (of_nat (48 + k) :: 16 word) \<le> 0x39"
    if "k < 10" for k :: nat
    using that by (simp add: word_le_nat_alt unat_digit del: of_nat_add)
  show ?case
  proof (cases "n < 10")
    case True
    then have "natToString n = [of_nat (48 + n)]"
      by (subst natToString.simps) simp
    then show ?thesis using digit [OF True] by (simp del: of_nat_add)
  next
    case False
    then have "natToString n = natToString (n div 10) @ [of_nat (48 + n mod 10)]"
      by (subst natToString.simps) simp
    then show ?thesis
      using False "1.IH" digit [of "n mod 10"] by (simp del: of_nat_add)
  qed
qed

section \<open>The segmenter\<close>

lemma firstMatching_Nil:
  "firstMatching d sels = [] \<longleftrightarrow> list_all (\<lambda>sel. querySelectorAll d sel = []) sels"
  by (induction sels) (simp_all add: Let_def)

lemma firstMatching_find:
  "firstMatching d sels =
     (case find (\<lambda>sel. querySelectorAll d sel \<noteq> []) sels of
        None \<Rightarrow> []
      | Some sel \<Rightarrow> querySelectorAll d sel)"
  by (induction sels) (simp_all add: Let_def)

lemma toSlides_long:
  "sl \<in> set (toSlides els) \<Longrightarrow> 20 < length (trim (slide_text sl))"
  by (simp add: toSlides_def)

lemma toSlides_keep_all:
  "list_all (\<lambda>el. 20 < length (trim (innerText el))) els \<Longrightarrow>
   toSlides els =
     map (\<lambda>(idx, el). \<lparr>slide_text = innerText el, slide_index = idx\<rparr>) (enumerate 0 els)"
  unfolding toSlides_def
  by (rule filter_True) (auto simp: list_all_iff enumerate_eq_zip dest: set_zip_rightD)

section \<open>The examples, evaluated\<close>

lemma okEnv_simps:
  "launch (okEnv r g) = Inr ()" "newPage (okEnv r g) = Inr ()" "goto (okEnv r g) u = Inr ()"
  "evaluate (okEnv r g) = Inr r" "close (okEnv r g) k = Inr ()" "generateContent (okEnv r g) = g"
  by (simp_all add: okEnv_def)

lemma truthy_exampleUrl: "truthy exampleUrl"
  by (simp add: exampleUrl_def)

lemma toString_exampleUrl:
  "toString exampleUrl = Inr [0x68, 0x74, 0x74, 0x70, 0x3A, 0x2F, 0x2F, 0x61]"
  by (simp add: exampleUrl_def)

lemma toString_three: "toString three = Inr [0x33]"
  by (simp add: three_def)


lemma falsy_converts: "\<not> truthy v \<Longrightarrow> \<not> isl (toString v)"
  by (cases v) simp_all

lemma trim_no_space: "\<not> isWhiteSpace c \<Longrightarrow> trim (replicate n c) = replicate n c"
  by (simp add: trim_def)

lemma trim_text25: "trim text25 = text25"
  by (simp add: text25_def trim_no_space isWhiteSpace_def)

lemma trim_text100: "trim text100 = text100"
  by (simp add: text100_def trim_no_space isWhiteSpace_def)

lemma trim_text15: "trim text15 = replicate 15 0x62"
  by (simp add: text15_def trim_def isWhiteSpace_def)

lemma detectSlides_threeElements:
  "detectSlides threeElements =
     [\<lparr>slide_text = text25, slide_index = 0\<rparr>, \<lparr>slide_text = text100, slide_index = 2\<rparr>]"
  by (simp add: detectSlides_def detectSlidesWith_def slideSelectors_def threeElements_def
      toSlides_def enumerate_eq_zip trim_text25 trim_text15 trim_text100 upt_rec)
    (simp add: text25_def text100_def)

lemma detectSlides_noElements:
  "detectSlides noElements = [\<lparr>slide_text = [0x48, 0x69], slide_index = 0\<rparr>]"
  by (simp add: detectSlides_def detectSlidesWith_def slideSelectors_def noElements_def)


lemma detectSlides_fiftyOneSections:
  "detectSlides fiftyOneSections =
     map (\<lambda>(idx, el). \<lparr>slide_text = innerText el, slide_index = idx\<rparr>)
       (enumerate 0 (replicate 51 \<lparr>innerText = text25\<rparr>))"
proof -
  have "list_all (\<lambda>el. 20 < length (trim (innerText el))) (replicate 51 \<lparr>innerText = text25\<rparr>)"
    by (simp add: list_all_iff trim_text25) (simp add: text25_def)
  then show ?thesis
    by (simp add: detectSlides_def detectSlidesWith_def slideSelectors_def fiftyOneSections_def
        toSlides_keep_all)
qed

section \<open>The claims\<close>

text \<open>
  C1. A batch run that gets through the browser (the values of the log line convert,
  every call on the browser resolves) answers 200 with one narration per processed
  slide, in slide order: \<open>generatedCount\<close> is the length of \<open>narrations\<close>, which is the
  smaller of the number of slides detected and 50, and \<open>slideCount\<close> is the number of
  slides detected, before the cap. The narration at \<open>i\<close> is made from the slide at \<open>i\<close>
  of the segmenter's output: it is the trimmed answer of the generator to the prompt
  that holds the ordinal \<open>i + 1\<close>, the line of the slide's position and the first 1500
  code units of that slide's text between the fixed parts of the template, or, when
  the generator threw, the placeholder of line 226 with the ordinal \<open>i + 1\<close>.
\<close>

theorem C1_one_narration_per_slide:
  assumes "truthy url" and "toString url = Inr urlText"
    and "toString slideCount = Inr countText"
    and "launch env = Inr ()" and "newPage env = Inr ()"
    and "goto env url = Inr ()" and "evaluate env = Inr d" and "close env 0 = Inr ()"
  shows "\<exists>narrations.
     response (analyzeSlidesBatch env url slideCount) =
       Some (200, BatchBody narrations (length (detectSlides d)) (length narrations)) \<and>
     length narrations = min (length (detectSlides d)) 50 \<and>
     (\<forall>i < length narrations.
        narrations ! i =
          (case generateContent env i
                  (batchPromptHead @ natToString (i + 1) @ batchPromptRequirements @
                   (if i = 0 then roleFirstLine
                    else if i + 1 = length (detectSlides d) then roleLastLine
                    else roleMiddleLine) @
                   batchPromptContent @ take 1500 (slide_text (detectSlides d ! i)) @
                   batchPromptTail) of
             Inr raw \<Rightarrow> trim raw
           | Inl e \<Rightarrow>
               [0x30B9, 0x30E9, 0x30A4, 0x30C9] @ natToString (i + 1) @
               [0x306E, 0x5185, 0x5BB9, 0x3092, 0x8AAC, 0x660E, 0x3057, 0x307E, 0x3059,
                0x3002]))"
proof -
  let ?slides = "detectSlides d"
  let ?ns = "map (narrationOf env ?slides) [0..<min (length ?slides) 50]"
  have "response (analyzeSlidesBatch env url slideCount) =
      Some (200, BatchBody ?ns (length ?slides) (length ?ns))"
    by (simp add: batch_run [OF assms] Let_def)
  moreover have "length ?ns = min (length ?slides) 50"
    by simp
  moreover have "\<forall>i < length ?ns. ?ns ! i = narrationOf env ?slides i"
    by simp
  ultimately show ?thesis
    unfolding narrationOf_spelled by blast
qed

theorem C1_one_narration_per_slide_witness:
  "response (analyzeSlidesBatch (okEnv threeElements (echoingExcept 1)) exampleUrl three) =
     Some (200, BatchBody
       [trim (batchPromptHead @ [0x31] @ batchPromptRequirements @ roleFirstLine @
              batchPromptContent @ text25 @ batchPromptTail),
        [0x30B9, 0x30E9, 0x30A4, 0x30C9, 0x32, 0x306E, 0x5185, 0x5BB9, 0x3092, 0x8AAC, 0x660E,
         0x3057, 0x307E, 0x3059, 0x3002]] 2 2)"
proof -
  let ?env = "okEnv threeElements (echoingExcept 1)"
  let ?slides = "detectSlides threeElements"
  obtain ns where r: "response (analyzeSlidesBatch ?env exampleUrl three) =
       Some (200, BatchBody ns (length ?slides) (length ns))"
    and l: "length ns = min (length ?slides) 50"
    and n: "\<forall>i < length ns. ns ! i =
          (case generateContent ?env i
                  (batchPromptHead @ natToString (i + 1) @ batchPromptRequirements @
                   (if i = 0 then roleFirstLine
                    else if i + 1 = length ?slides then roleLastLine
                    else roleMiddleLine) @
                   batchPromptContent @ take 1500 (slide_text (?slides ! i)) @
                   batchPromptTail) of
             Inr raw \<Rightarrow> trim raw
           | Inl e \<Rightarrow>
               [0x30B9, 0x30E9, 0x30A4, 0x30C9] @ natToString (i + 1) @
               [0x306E, 0x5185, 0x5BB9, 0x3092, 0x8AAC, 0x660E, 0x3057, 0x307E, 0x3059,
                0x3002])"
    using C1_one_narration_per_slide [OF truthy_exampleUrl toString_exampleUrl toString_three
        okEnv_simps(1,2,3,4,5), of threeElements "echoingExcept 1"]
    by blast
  have l2: "length ns = 2"
    using l by (simp add: detectSlides_threeElements)
  have "ns ! 0 = trim (batchPromptHead @ [0x31] @ batchPromptRequirements @ roleFirstLine @
              batchPromptContent @ text25 @ batchPromptTail)"
    using n l2
    by (simp add: okEnv_simps echoingExcept_def detectSlides_threeElements natToString.simps
        text25_def)
  moreover have "ns ! 1 = [0x30B9, 0x30E9, 0x30A4, 0x30C9, 0x32, 0x306E, 0x5185, 0x5BB9, 0x3092,
      0x8AAC, 0x660E, 0x3057, 0x307E, 0x3059, 0x3002]"
    using n l2 by (simp add: okEnv_simps echoingExcept_def natToString.simps)
  ultimately have "ns = [trim (batchPromptHead @ [0x31] @ batchPromptRequirements @
      roleFirstLine @ batchPromptContent @ text25 @ batchPromptTail),
      [0x30B9, 0x30E9, 0x30A4, 0x30C9, 0x32, 0x306E, 0x5185, 0x5BB9, 0x3092, 0x8AAC, 0x660E,
       0x3057, 0x307E, 0x3059, 0x3002]]"
    using l2 by (auto simp: length_Suc_conv numeral_2_eq_2)
  then show ?thesis
    using r l2 by (simp add: detectSlides_threeElements)
qed

text \<open>
  C2. When the generator throws for the slide at \<open>k\<close> of the processed slides, the
  batch is not aborted: the response is still 200, \<open>narrations[k]\<close> is the placeholder
  of line 226, the four code units of its head, the decimal digits of the ordinal
  \<open>k + 1\<close> and the ten code units of its tail, and every other entry is what it is
  under any generator \<open>g\<close> that answers as this one does on every call but the \<open>k\<close>-th.
\<close>

theorem C2_failure_isolation:
  assumes "truthy url" and "toString url = Inr urlText"
    and "toString slideCount = Inr countText"
    and "launch env = Inr ()" and "newPage env = Inr ()"
    and "goto env url = Inr ()" and "evaluate env = Inr d" and "close env 0 = Inr ()"
    and "k < min (length (detectSlides d)) 50"
    and "generateContent env k
           (batchPrompt k (length (detectSlides d)) (detectSlides d ! k)) = Inl e"
    and "\<forall>j p. j \<noteq> k \<longrightarrow> g j p = generateContent env j p"
  shows "(\<exists>others.
     response (analyzeSlidesBatch (env\<lparr>generateContent := g\<rparr>) url slideCount) =
       Some (200, BatchBody others (length (detectSlides d))
          (min (length (detectSlides d)) 50)) \<and>
     response (analyzeSlidesBatch env url slideCount) =
       Some (200, BatchBody
          (others[k := [0x30B9, 0x30E9, 0x30A4, 0x30C9] @ natToString (k + 1) @
                       [0x306E, 0x5185, 0x5BB9, 0x3092, 0x8AAC, 0x660E, 0x3057, 0x307E,
                        0x3059, 0x3002]])
          (length (detectSlides d)) (min (length (detectSlides d)) 50))) \<and>
     list_all (\<lambda>c. 0x30 \<le> c \<and> c \<le> 0x39) (natToString (k + 1)) \<and>
     decimalValue (natToString (k + 1)) = k + 1"
proof -
  let ?slides = "detectSlides d"
  let ?m = "min (length ?slides) 50"
  let ?env' = "env\<lparr>generateContent := g\<rparr>"
  let ?others = "map (narrationOf ?env' ?slides) [0..<?m]"
  have run': "truthy url" "toString url = Inr urlText" "toString slideCount = Inr countText"
    "launch ?env' = Inr ()" "newPage ?env' = Inr ()"
    "goto ?env' url = Inr ()" "evaluate ?env' = Inr d" "close ?env' 0 = Inr ()"
    using assms(1-8) by simp_all
  have r': "response (analyzeSlidesBatch ?env' url slideCount) =
      Some (200, BatchBody ?others (length ?slides) ?m)"
    by (simp add: batch_run [OF run'] Let_def)
  have r: "response (analyzeSlidesBatch env url slideCount) =
      Some (200, BatchBody (map (narrationOf env ?slides) [0..<?m]) (length ?slides) ?m)"
    by (simp add: batch_run [OF assms(1-8)] Let_def)
  have at_k: "narrationOf env ?slides k = fallbackNarration (k + 1)"
    using assms(10) by (simp add: narrationOf_def)
  have off_k: "narrationOf env ?slides j = narrationOf ?env' ?slides j" if "j \<noteq> k" for j
    using assms(11) that by (simp add: narrationOf_def)
  have "map (narrationOf env ?slides) [0..<?m] = ?others[k := fallbackNarration (k + 1)]"
  proof (rule nth_equalityI)
    show "length (map (narrationOf env ?slides) [0..<?m]) =
        length (?others[k := fallbackNarration (k + 1)])"
      by simp
  next
    fix i
    assume "i < length (map (narrationOf env ?slides) [0..<?m])"
    then have i: "i < ?m" by simp
    show "map (narrationOf env ?slides) [0..<?m] ! i =
        ?others[k := fallbackNarration (k + 1)] ! i"
    proof (cases "i = k")
      case True
      then show ?thesis using i at_k by (simp del: min_less_iff_conj)
    next
      case False
      then show ?thesis using i off_k [of i] by (simp del: min_less_iff_conj)
    qed
  qed
  with r r' have "\<exists>others.
     response (analyzeSlidesBatch ?env' url slideCount) =
       Some (200, BatchBody others (length ?slides) ?m) \<and>
     response (analyzeSlidesBatch env url slideCount) =
       Some (200, BatchBody (others[k := fallbackNarration (k + 1)]) (length ?slides) ?m)"
    by (intro exI [of _ ?others]) simp
  then show ?thesis
    unfolding fallbackNarration_spelled
    using natToString_digits [of "k + 1"] decimalValue_natToString [of "k + 1"] by blast
qed

theorem C2_failure_isolation_witness:
  "response (analyzeSlidesBatch (okEnv threeElements echoing) exampleUrl JUndefined) =
     Some (200, BatchBody
       [trim (batchPromptHead @ [0x31] @ batchPromptRequirements @ roleFirstLine @
              batchPromptContent @ text25 @ batchPromptTail),
        trim (batchPromptHead @ [0x32] @ batchPromptRequirements @ roleLastLine @
              batchPromptContent @ text100 @ batchPromptTail)] 2 2) \<and>
   response (analyzeSlidesBatch (okEnv threeElements (echoingExcept 0)) exampleUrl JUndefined) =
     Some (200, BatchBody
       [[0x30B9, 0x30E9, 0x30A4, 0x30C9, 0x31, 0x306E, 0x5185, 0x5BB9, 0x3092, 0x8AAC, 0x660E,
         0x3057, 0x307E, 0x3059, 0x3002],
        trim (batchPromptHead @ [0x32] @ batchPromptRequirements @ roleLastLine @
              batchPromptContent @ text100 @ batchPromptTail)] 2 2) \<and>
   decimalValue [0x31] = 1"
proof -
  let ?env = "okEnv threeElements (echoingExcept 0)"
  let ?slides = "detectSlides threeElements"
  let ?tail = "[0x306E, 0x5185, 0x5BB9, 0x3092, 0x8AAC, 0x660E, 0x3057, 0x307E, 0x3059,
    0x3002] :: jsstring"
  have same: "(okEnv r g)\<lparr>generateContent := g'\<rparr> = okEnv r g'" for r :: document and g g'
    by (simp add: okEnv_def)
  have "(\<exists>others.
     response (analyzeSlidesBatch (?env\<lparr>generateContent := echoing\<rparr>) exampleUrl JUndefined) =
       Some (200, BatchBody others (length ?slides) (min (length ?slides) 50)) \<and>
     response (analyzeSlidesBatch ?env exampleUrl JUndefined) =
       Some (200, BatchBody
          (others[0 := [0x30B9, 0x30E9, 0x30A4, 0x30C9] @ natToString (0 + 1) @ ?tail])
          (length ?slides) (min (length ?slides) 50))) \<and>
     list_all (\<lambda>c. 0x30 \<le> c \<and> c \<le> 0x39) (natToString (0 + 1)) \<and>
     decimalValue (natToString (0 + 1)) = 0 + 1"
    by (rule C2_failure_isolation [where e = "Error [0x35, 0x30, 0x33]"
          and urlText = "[0x68, 0x74, 0x74, 0x70, 0x3A, 0x2F, 0x2F, 0x61]"
          and countText = "[0x75, 0x6E, 0x64, 0x65, 0x66, 0x69, 0x6E, 0x65, 0x64]"])
      (simp_all add: truthy_exampleUrl toString_exampleUrl okEnv_simps
        detectSlides_threeElements echoingExcept_def echoing_def)
  then obtain others where
    a: "response (analyzeSlidesBatch (?env\<lparr>generateContent := echoing\<rparr>) exampleUrl
          JUndefined) =
       Some (200, BatchBody others (length ?slides) (min (length ?slides) 50))" and
    b: "response (analyzeSlidesBatch ?env exampleUrl JUndefined) =
       Some (200, BatchBody
          (others[0 := [0x30B9, 0x30E9, 0x30A4, 0x30C9] @ natToString (0 + 1) @ ?tail])
          (length ?slides) (min (length ?slides) 50))" and
    c: "decimalValue (natToString (0 + 1)) = 0 + 1"
    by blast
  have e: "response (analyzeSlidesBatch (okEnv threeElements echoing) exampleUrl JUndefined) =
     Some (200, BatchBody
       [trim (batchPromptHead @ [0x31] @ batchPromptRequirements @ roleFirstLine @
              batchPromptContent @ text25 @ batchPromptTail),
        trim (batchPromptHead @ [0x32] @ batchPromptRequirements @ roleLastLine @
              batchPromptContent @ text100 @ batchPromptTail)] 2 2)"
    by (simp add: batch_run [OF truthy_exampleUrl toString_exampleUrl _ okEnv_simps(1,2,3,4,5)]
        Let_def detectSlides_threeElements upt_rec narrationOf_spelled okEnv_simps echoing_def
        natToString.simps numeral_2_eq_2)
      (simp add: text25_def text100_def)
  from a have "others =
       [trim (batchPromptHead @ [0x31] @ batchPromptRequirements @ roleFirstLine @
              batchPromptContent @ text25 @ batchPromptTail),
        trim (batchPromptHead @ [0x32] @ batchPromptRequirements @ roleLastLine @
              batchPromptContent @ text100 @ batchPromptTail)]"
    by (simp add: same e)
  with b c e show ?thesis
    by (simp add: detectSlides_threeElements natToString.simps)
qed

text \<open>
  C3. On a batch run that gets through the browser, the prompts are sent in slide
  order, one per processed slide, and the prompt for the slide at \<open>i\<close> carries the line
  of the first slide when \<open>i = 0\<close>, the line of the last slide when \<open>i > 0\<close> and \<open>i\<close> is
  the last index of the whole list of detected slides (\<open>i + 1 = slides.length\<close>), and
  the line of a middle slide otherwise. The last processed slide is therefore asked
  for with the role last when between 2 and 50 slides are detected, and with the role
  middle when more than 50 are.
\<close>

theorem C3_position_roles:
  assumes "truthy url" and "toString url = Inr urlText"
    and "toString slideCount = Inr countText"
    and "launch env = Inr ()" and "newPage env = Inr ()"
    and "goto env url = Inr ()" and "evaluate env = Inr d" and "close env 0 = Inr ()"
  shows "prompts (effects (analyzeSlidesBatch env url slideCount)) =
     map (\<lambda>i. batchPromptWith (i + 1)
                (if i = 0 then RoleFirst
                 else if i + 1 = length (detectSlides d) then RoleLast
                 else RoleMiddle)
                (slide_text (detectSlides d ! i)))
       [0..<min (length (detectSlides d)) 50]"
  by (simp add: batch_prompts [OF assms] batchPrompt_def positionRoleOf_eq)

text \<open>
  With 51 slides detected the processed slides are those at 0 to 49; the prompt for the
  slide at 49, the last one processed, carries the line of a middle slide, which is
  not the prompt with the line of the last slide.
\<close>

theorem C3_position_roles_counterexample:
  "min (length (detectSlides fiftyOneSections)) 50 - 1 = 49 \<and>
   prompts (effects (analyzeSlidesBatch (okEnv fiftyOneSections answering) exampleUrl
      JUndefined)) ! 49 = batchPromptWith 50 RoleMiddle text25 \<and>
   batchPromptWith 50 RoleMiddle text25 \<noteq> batchPromptWith 50 RoleLast text25"
proof -
  have len: "length (detectSlides fiftyOneSections) = 51"
    by (simp add: detectSlides_fiftyOneSections)
  have at49: "detectSlides fiftyOneSections ! 49 = \<lparr>slide_text = text25, slide_index = 49\<rparr>"
    by (simp add: detectSlides_fiftyOneSections nth_enumerate_eq)
  have "prompts (effects (analyzeSlidesBatch (okEnv fiftyOneSections answering) exampleUrl
      JUndefined)) ! 49 = batchPrompt 49 51 (detectSlides fiftyOneSections ! 49)"
    by (simp add: batch_prompts [OF truthy_exampleUrl toString_exampleUrl _
          okEnv_simps(1,2,3,4,5)] len)
  also have "\<dots> = batchPromptWith 50 RoleMiddle text25"
    by (simp add: at49 batchPrompt_def positionRoleOf_eq)
  finally show ?thesis
    by (simp add: len batchPromptWith_role)
qed

theorem C3_position_roles_witness:
  "prompts (effects (analyzeSlidesBatch (okEnv threeElements answering) exampleUrl JUndefined)) =
     [batchPromptWith 1 RoleFirst text25, batchPromptWith 2 RoleLast text100]"
  using C3_position_roles [OF truthy_exampleUrl toString_exampleUrl _ okEnv_simps(1,2,3,4,5),
      of JUndefined _ threeElements answering]
  by (simp add: detectSlides_threeElements upt_rec numeral_2_eq_2)

text \<open>
  C4. When some selector matches at least one element, every slide of the segmenter's
  output has a trimmed text longer than 20 code units. When none does, the output is
  the single slide of the whole body text, whatever its length: the fallback of line
  167 returns before the filter of line 173.
\<close>

theorem C4_short_texts_dropped:
  "(list_ex (\<lambda>sel. querySelectorAll d sel \<noteq> []) slideSelectors \<longrightarrow>
      (\<forall>sl \<in> set (detectSlides d). 20 < length (trim (slide_text sl)))) \<and>
   (\<not> list_ex (\<lambda>sel. querySelectorAll d sel \<noteq> []) slideSelectors \<longrightarrow>
      detectSlides d = [\<lparr>slide_text = body_innerText d, slide_index = 0\<rparr>])"
proof (cases "firstMatching d slideSelectors = []")
  case True
  then have "\<not> list_ex (\<lambda>sel. querySelectorAll d sel \<noteq> []) slideSelectors"
    by (simp add: firstMatching_Nil list_all_iff list_ex_iff)
  with True show ?thesis
    by (simp add: detectSlides_def detectSlidesWith_def)
next
  case False
  then have "list_ex (\<lambda>sel. querySelectorAll d sel \<noteq> []) slideSelectors"
    by (simp add: firstMatching_Nil list_all_iff list_ex_iff)
  with False show ?thesis
    by (simp add: detectSlides_def detectSlidesWith_def toSlides_long)
qed

text \<open>
  On a page where no selector matches and whose body text is \<open>Hi\<close>, the output holds a
  slide of trimmed length 2.
\<close>

theorem C4_short_texts_dropped_counterexample:
  "detectSlides noElements = [\<lparr>slide_text = [0x48, 0x69], slide_index = 0\<rparr>] \<and>
   length (trim [0x48, 0x69]) = 2"
  by (simp add: detectSlides_noElements trim_def isWhiteSpace_def)

theorem C4_short_texts_dropped_witness:
  "list_ex (\<lambda>sel. querySelectorAll threeElements sel \<noteq> []) slideSelectors \<and>
   length (detectSlides threeElements) = 2 \<and>
   20 < length (trim (slide_text (detectSlides threeElements ! 0))) \<and>
   20 < length (trim (slide_text (detectSlides threeElements ! 1))) \<and>
   \<not> list_ex (\<lambda>sel. querySelectorAll noElements sel \<noteq> []) slideSelectors \<and>
   detectSlides noElements = [\<lparr>slide_text = body_innerText noElements, slide_index = 0\<rparr>]"
proof -
  have m: "list_ex (\<lambda>sel. querySelectorAll threeElements sel \<noteq> []) slideSelectors"
    by (simp add: slideSelectors_def threeElements_def)
  have n: "\<not> list_ex (\<lambda>sel. querySelectorAll noElements sel \<noteq> []) slideSelectors"
    by (simp add: slideSelectors_def noElements_def)
  have l: "length (detectSlides threeElements) = 2"
    by (simp add: detectSlides_threeElements)
  from m C4_short_texts_dropped [of threeElements]
  have "\<forall>sl \<in> set (detectSlides threeElements). 20 < length (trim (slide_text sl))"
    by blast
  then have "20 < length (trim (slide_text (detectSlides threeElements ! 0)))"
    and "20 < length (trim (slide_text (detectSlides threeElements ! 1)))"
    using l by simp_all
  moreover from n C4_short_texts_dropped [of noElements]
  have "detectSlides noElements = [\<lparr>slide_text = body_innerText noElements, slide_index = 0\<rparr>]"
    by blast
  ultimately show ?thesis using m n l by blast
qed

text \<open>
  C5. The selectors are tried in the order of \<open>slideSelectors\<close>. The output is what the
  callback gives when run with only the first selector that matches at least one
  element, that is, the filtered slides of that selector's elements; when no selector
  matches, it is the single slide of the whole body text with index 0.
\<close>

theorem C5_first_matching_selector:
  "(find (\<lambda>sel. querySelectorAll d sel \<noteq> []) slideSelectors = Some sel \<longrightarrow>
      detectSlides d = detectSlidesWith [sel] d \<and>
      detectSlides d = toSlides (querySelectorAll d sel)) \<and>
   (find (\<lambda>sel. querySelectorAll d sel \<noteq> []) slideSelectors = None \<longrightarrow>
      detectSlides d = [\<lparr>slide_text = body_innerText d, slide_index = 0\<rparr>])"
proof (cases "find (\<lambda>sel. querySelectorAll d sel \<noteq> []) slideSelectors")
  case None
  then show ?thesis
    by (simp add: detectSlides_def detectSlidesWith_def firstMatching_find)
next
  case (Some s)
  then have "querySelectorAll d s \<noteq> []"
    by (auto simp: find_Some_iff)
  with Some show ?thesis
    by (auto simp: detectSlides_def detectSlidesWith_def firstMatching_find Let_def)
qed

theorem C5_first_matching_selector_witness:
  "find (\<lambda>sel. querySelectorAll threeElements sel \<noteq> []) slideSelectors = Some ClassSlide \<and>
   querySelectorAll threeElements Article \<noteq> [] \<and>
   detectSlides threeElements = detectSlidesWith [ClassSlide] threeElements \<and>
   detectSlides threeElements \<noteq> detectSlidesWith [Article] threeElements \<and>
   find (\<lambda>sel. querySelectorAll noElements sel \<noteq> []) slideSelectors = None \<and>
   detectSlides noElements = [\<lparr>slide_text = [0x48, 0x69], slide_index = 0\<rparr>]"
proof -
  have f: "find (\<lambda>sel. querySelectorAll threeElements sel \<noteq> []) slideSelectors =
      Some ClassSlide"
    by (simp add: slideSelectors_def threeElements_def)
  have a: "querySelectorAll threeElements Article \<noteq> []"
    by (simp add: threeElements_def)
  have n: "find (\<lambda>sel. querySelectorAll noElements sel \<noteq> []) slideSelectors = None"
    by (simp add: slideSelectors_def noElements_def)
  have "detectSlidesWith [Article] threeElements = [\<lparr>slide_text = text100, slide_index = 0\<rparr>]"
    by (simp add: detectSlidesWith_def threeElements_def toSlides_def enumerate_eq_zip
        trim_text100) (simp add: text100_def)
  then have d: "detectSlides threeElements \<noteq> detectSlidesWith [Article] threeElements"
    by (simp add: detectSlides_threeElements)
  from f C5_first_matching_selector [of threeElements ClassSlide]
  have "detectSlides threeElements = detectSlidesWith [ClassSlide] threeElements"
    by blast
  moreover from n C5_first_matching_selector [of noElements]
  have "detectSlides noElements = [\<lparr>slide_text = body_innerText noElements, slide_index = 0\<rparr>]"
    by blast
  then have "detectSlides noElements = [\<lparr>slide_text = [0x48, 0x69], slide_index = 0\<rparr>]"
    by (simp add: noElements_def)
  ultimately show ?thesis using f a n d by blast
qed

text \<open>
  C6. For a page whose winning selector matches exactly three elements with trimmed
  text lengths 25, 15 and 100, the segmenter outputs exactly two slides, the first and
  the third element, whose \<open>index\<close> fields are their positions before the filter, 0 and
  2; the batch sends exactly two prompts, with the roles first and last, and answers
  with exactly two narrations.
\<close>

theorem C6_three_elements:
  assumes "truthy url" and "toString url = Inr urlText"
    and "toString slideCount = Inr countText"
    and "launch env = Inr ()" and "newPage env = Inr ()"
    and "goto env url = Inr ()" and "evaluate env = Inr d" and "close env 0 = Inr ()"
    and "firstMatching d slideSelectors = [e1, e2, e3]"
    and "length (trim (innerText e1)) = 25"
    and "length (trim (innerText e2)) = 15"
    and "length (trim (innerText e3)) = 100"
  shows "detectSlides d =
       [\<lparr>slide_text = innerText e1, slide_index = 0\<rparr>,
        \<lparr>slide_text = innerText e3, slide_index = 2\<rparr>] \<and>
     prompts (effects (analyzeSlidesBatch env url slideCount)) =
       [batchPromptWith 1 RoleFirst (innerText e1), batchPromptWith 2 RoleLast (innerText e3)] \<and>
     (\<exists>n0 n1. response (analyzeSlidesBatch env url slideCount) =
        Some (200, BatchBody [n0, n1] 2 2))"
proof -
  have slides: "detectSlides d =
       [\<lparr>slide_text = innerText e1, slide_index = 0\<rparr>,
        \<lparr>slide_text = innerText e3, slide_index = 2\<rparr>]"
    using assms(9-12)
    by (simp add: detectSlides_def detectSlidesWith_def toSlides_def enumerate_eq_zip upt_rec)
  have "prompts (effects (analyzeSlidesBatch env url slideCount)) =
       [batchPromptWith 1 RoleFirst (innerText e1), batchPromptWith 2 RoleLast (innerText e3)]"
    by (simp add: batch_prompts [OF assms(1-8)] slides upt_rec batchPrompt_def
        positionRoleOf_eq numeral_2_eq_2)
  moreover have "\<exists>n0 n1. response (analyzeSlidesBatch env url slideCount) =
        Some (200, BatchBody [n0, n1] 2 2)"
    by (simp add: batch_run [OF assms(1-8)] slides upt_rec Let_def)
  ultimately show ?thesis using slides by blast
qed

text \<open>
  On such a page the \<open>index\<close> fields of the output are 0 and 2, not 0 and 1: \<open>map\<close>
  numbers the elements on line 170, before \<open>filter\<close> drops the short one on line 173.
\<close>

theorem C6_three_elements_counterexample:
  "firstMatching threeElements slideSelectors =
     [\<lparr>innerText = text25\<rparr>, \<lparr>innerText = text15\<rparr>, \<lparr>innerText = text100\<rparr>] \<and>
   length (trim text25) = 25 \<and> length (trim text15) = 15 \<and> length (trim text100) = 100 \<and>
   map slide_index (detectSlides threeElements) = [0, 2]"
proof -
  have "firstMatching threeElements slideSelectors =
     [\<lparr>innerText = text25\<rparr>, \<lparr>innerText = text15\<rparr>, \<lparr>innerText = text100\<rparr>]"
    by (simp add: slideSelectors_def threeElements_def)
  moreover have "length (trim text25) = 25" "length (trim text15) = 15"
    "length (trim text100) = 100"
    by (simp_all add: trim_text25 trim_text15 trim_text100) (simp_all add: text25_def text100_def)
  moreover have "map slide_index (detectSlides threeElements) = [0, 2]"
    by (simp add: detectSlides_threeElements)
  ultimately show ?thesis by blast
qed

theorem C6_three_elements_witness:
  "detectSlides threeElements =
     [\<lparr>slide_text = text25, slide_index = 0\<rparr>, \<lparr>slide_text = text100, slide_index = 2\<rparr>] \<and>
   prompts (effects (analyzeSlidesBatch (okEnv threeElements answering) exampleUrl three)) =
     [batchPromptWith 1 RoleFirst text25, batchPromptWith 2 RoleLast text100] \<and>
   (\<exists>n0 n1. response (analyzeSlidesBatch (okEnv threeElements answering) exampleUrl three) =
      Some (200, BatchBody [n0, n1] 2 2))"
proof -
  have "firstMatching threeElements slideSelectors =
     [\<lparr>innerText = text25\<rparr>, \<lparr>innerText = text15\<rparr>, \<lparr>innerText = text100\<rparr>]"
    by (simp add: slideSelectors_def threeElements_def)
  moreover have "length (trim (innerText \<lparr>innerText = text25\<rparr>)) = 25"
    by (simp add: trim_text25) (simp add: text25_def)
  moreover have "length (trim (innerText \<lparr>innerText = text15\<rparr>)) = 15"
    by (simp add: trim_text15)
  moreover have "length (trim (innerText \<lparr>innerText = text100\<rparr>)) = 100"
    by (simp add: trim_text100) (simp add: text100_def)
  ultimately show ?thesis
    using C6_three_elements [OF truthy_exampleUrl toString_exampleUrl toString_three
        okEnv_simps(1,2,3,4,5), of threeElements "\<lparr>innerText = text25\<rparr>"
        "\<lparr>innerText = text15\<rparr>" "\<lparr>innerText = text100\<rparr>" answering]
    by simp
qed

text \<open>
  C7. The 500 ms delay of line 222 stands inside the \<open>try\<close> block, after the push:
  the \<open>catch\<close> block has none. On a page of two slides where the generator throws on
  the first call, the second prompt is sent right after the first, and the only 500 ms
  delay of the run follows the second, successful, call.
\<close>

theorem C7_no_delay_after_failure:
  "withoutLogs (effects (analyzeSlidesBatch (okEnv threeElements (failingAt 0)) exampleUrl
      JUndefined)) =
     [Launch, NewPage, Goto exampleUrl, Sleep 3000, Evaluate, Close,
      Generate (batchPromptWith 1 RoleFirst text25),
      Generate (batchPromptWith 2 RoleLast text100), Sleep 500]"
  by (simp add: batch_run [OF truthy_exampleUrl toString_exampleUrl _ okEnv_simps(1,2,3,4,5)]
      Let_def detectSlides_threeElements upt_rec withoutLogs_append withoutLogs_turnEvents
      okEnv_simps failingAt_def answering_def batchPrompt_def positionRoleOf_eq numeral_2_eq_2)




text \<open>
  C9. In both handlers \<open>browser.close()\<close> is never called when the browser was not
  opened (the URL is rejected, a value of the log line does not convert, or
  \<open>puppeteer.launch\<close> rejects). When the launch resolved it is called once, with one
  exception: when the \<open>close\<close> awaited in the \<open>try\<close> block itself rejects, the variable
  is not reset to \<open>null\<close> and the \<open>catch\<close> block calls \<open>close\<close> a second time. After a
  \<open>close\<close> that resolved there is no further call.
\<close>

theorem C9_browser_closed_once:
  "closes (effects (analyzeSlide env url)) =
     (if truthy url \<and> \<not> isl (toString url) \<and> launch env = Inr ()
      then (if newPage env = Inr () \<and> goto env url = Inr () \<and> \<not> isl (evaluate env) \<and>
               isl (close env 0)
            then 2 else 1)
      else 0) \<and>
   closes (effects (analyzeSlidesBatch env' url' slideCount)) =
     (if truthy url' \<and> \<not> isl (toString url') \<and> \<not> isl (toString slideCount) \<and>
         launch env' = Inr ()
      then (if newPage env' = Inr () \<and> goto env' url' = Inr () \<and> \<not> isl (evaluate env') \<and>
               isl (close env' 0)
            then 2 else 1)
      else 0)"
proof
  show "closes (effects (analyzeSlide env url)) =
     (if truthy url \<and> \<not> isl (toString url) \<and> launch env = Inr ()
      then (if newPage env = Inr () \<and> goto env url = Inr () \<and> \<not> isl (evaluate env) \<and>
               isl (close env 0)
            then 2 else 1)
      else 0)"
    by (simp add: analyzeSlide_def analyzeSlide_try_def analyzeSlide_catch_def awaitClose_def
        Let_def emit_def initial_def closes_append split: sum.splits)
  show "closes (effects (analyzeSlidesBatch env' url' slideCount)) =
     (if truthy url' \<and> \<not> isl (toString url') \<and> \<not> isl (toString slideCount) \<and>
         launch env' = Inr ()
      then (if newPage env' = Inr () \<and> goto env' url' = Inr () \<and> \<not> isl (evaluate env') \<and>
               isl (close env' 0)
            then 2 else 1)
      else 0)"
    using falsy_converts [of slideCount]
    by (simp add: analyzeSlidesBatch_def analyzeSlidesBatch_try_def analyzeSlidesBatch_catch_def
        awaitClose_def Let_def case_prod_beta generateLoop_trace generateLoop_browser
        closes_append closes_turns emit_def initial_def split: sum.splits)
qed

text \<open>
  When the first \<open>close\<close> rejects with the message \<open>gone\<close>, on a browser that was
  opened, both handlers call \<open>close\<close> twice and answer 500 with that message.
\<close>

theorem C9_browser_closed_once_counterexample:
  "launch (closeRejectsOnce text100 answering) = Inr () \<and>
   closes (effects (analyzeSlide (closeRejectsOnce text100 answering) exampleUrl)) = 2 \<and>
   response (analyzeSlide (closeRejectsOnce text100 answering) exampleUrl) =
     Some (500, FailureBody msgAnalyzeFailed [0x67, 0x6F, 0x6E, 0x65]) \<and>
   launch (closeRejectsOnce threeElements answering) = Inr () \<and>
   closes (effects (analyzeSlidesBatch (closeRejectsOnce threeElements answering) exampleUrl
     JUndefined)) = 2 \<and>
   response (analyzeSlidesBatch (closeRejectsOnce threeElements answering) exampleUrl
     JUndefined) = Some (500, FailureBody msgBatchFailed [0x67, 0x6F, 0x6E, 0x65])"
  by (simp add: analyzeSlide_def analyzeSlide_try_def analyzeSlide_catch_def
      analyzeSlidesBatch_def analyzeSlidesBatch_try_def analyzeSlidesBatch_catch_def
      awaitClose_def closeRejectsOnce_def okEnv_def truthy_exampleUrl toString_exampleUrl
      Let_def emit_def initial_def)

text \<open>
  C10. A request whose \<open>url\<close> is falsy (the empty string, \<open>0\<close>, \<open>false\<close>, \<open>null\<close>) gets,
  from either endpoint, the 400 response of a request without \<open>url\<close>, and the handler
  has no effect at all: no browser is launched.
\<close>

theorem C10_falsy_url_rejected:
  assumes "\<not> truthy url"
  shows "analyzeSlide env url =
       \<lparr>response = Some (400, ErrorBody msgUrlRequired), effects = []\<rparr> \<and>
     analyzeSlide env url = analyzeSlide env JUndefined \<and>
     analyzeSlidesBatch env' url slideCount =
       \<lparr>response = Some (400, ErrorBody msgUrlRequired), effects = []\<rparr> \<and>
     analyzeSlidesBatch env' url slideCount = analyzeSlidesBatch env' JUndefined slideCount"
  using assms by (simp add: analyzeSlide_def analyzeSlidesBatch_def)

theorem C10_falsy_url_rejected_witness:
  "analyzeSlide (okEnv text100 answering) (JStr []) =
     \<lparr>response = Some (400, ErrorBody msgUrlRequired), effects = []\<rparr> \<and>
   analyzeSlide (okEnv text100 answering) (JStr []) =
     analyzeSlide (okEnv text100 answering) JUndefined \<and>
   analyzeSlidesBatch (okEnv threeElements answering) (JStr []) three =
     \<lparr>response = Some (400, ErrorBody msgUrlRequired), effects = []\<rparr> \<and>
   analyzeSlidesBatch (okEnv threeElements answering) (JStr []) three =
     analyzeSlidesBatch (okEnv threeElements answering) JUndefined three"
  by (rule C10_falsy_url_rejected) simp

end
